theory Spec2Isabelle
  imports Complex_Main "HOL-Library.Multiset"
begin

section \<open>Local Pro Mode: parallel candidate generation and synthesis\<close>

text \<open>
  A shallow embedding of \<^verbatim>\<open>local_pro_mode.py\<close>: the class \<^verbatim>\<open>LocalProMode\<close> with its
  retry loop \<^verbatim>\<open>_one_completion\<close>, the prompt assembly \<^verbatim>\<open>_build_synthesis_messages\<close>
  and the pipeline \<^verbatim>\<open>run\<close>.

  Modelling decisions.
  \<^item> A Python \<^verbatim>\<open>str\<close> that carries text (a prompt, a message content, a candidate) is
    a \<open>unicode\<close>: the list of its Unicode code points. The literals of the program are
    ASCII and are embedded by \<open>ascii\<close>. Names, roles and the messages of exceptions,
    which no operation of the program inspects, stay \<open>string\<close>s. The type annotations
    of the source (\<^verbatim>\<open>-> str\<close>, \<^verbatim>\<open>List[str]\<close>) are followed, so a message content is
    always such a list.
  \<^item> The floats \<^verbatim>\<open>0.9\<close>, \<^verbatim>\<open>0.2\<close>, \<^verbatim>\<open>0.5\<close> are rationals; the only arithmetic is
    the doubling of the delay.
  \<^item> An exception is a value of \<open>exn\<close>, tagged by the place that raises it; a function
    that may raise returns \<open>exn + 'a\<close>.
  \<^item> The backend is an oracle: it says what \<^verbatim>\<open>client.chat.completions.create\<close> answers
    to each call, the call being identified by who makes it (attempt \<open>k\<close> of dispatch
    unit \<open>i\<close>, or the synthesis pass).
  \<^item> Effects are traces: every function returns the backend requests it issued and the
    sleeps it took, in order. Each dispatch unit runs on its own thread, so each has its
    own trace; how the traces of the units interleave is the scheduler's choice. A
    service that answers by the order in which the calls arrive is a \<open>service\<close>, and one
    execution of it is the backend \<open>by_arrival\<close> of the arrival positions the scheduler
    chose. Printing, of progress and of the response statistics, is not modelled and is
    taken not to raise.
  \<^item> The order in which \<^verbatim>\<open>as_completed\<close> yields the futures is a parameter of \<open>run\<close>:
    a list of unit indices, each submitted unit once.
\<close>

subsection \<open>Configuration\<close>

definition BASE_URL :: string where
  "BASE_URL = ''http://localhost:1234/api/v0''"

definition MODEL :: string where
  "MODEL = ''qwen3-4b-thinking-2507''"

definition MAX_COMPLETION_TOKENS :: nat where
  "MAX_COMPLETION_TOKENS = 30000"

subsection \<open>Text\<close>

type_synonym unicode = "nat list"

definition ascii :: "string \<Rightarrow> unicode" where
  \<comment> \<open>The code points of an ASCII literal.\<close>
  "ascii s = map of_char s"

subsection \<open>Requests, responses, exceptions\<close>

record message =
  role :: string
  content :: unicode

record request =
  req_model :: string
  req_messages :: "message list"
  req_temperature :: rat
  req_max_tokens :: nat
  req_top_p :: nat
  req_stream :: bool

text \<open>A response is the list of its choices, each the content of the choice's message.\<close>

datatype response = Response (choices: "unicode list")

datatype exn =
    ValueError string
  | RuntimeError string
  | IndexError
  | ClientError string

datatype caller = Candidate nat nat | Synthesis

type_synonym backend = "caller \<Rightarrow> request \<Rightarrow> string + response"

datatype event = Create request | Sleep rat

subsection \<open>The class\<close>

record LocalProMode =
  model :: string
  base_url :: string
  client :: backend

definition py_or :: "string option \<Rightarrow> string \<Rightarrow> string" where
  \<comment> \<open>\<^verbatim>\<open>x or d\<close>: \<^verbatim>\<open>None\<close> and the empty string are falsy.\<close>
  "py_or x d = (case x of None \<Rightarrow> d | Some s \<Rightarrow> if s = [] then d else s)"

definition init :: "string option \<Rightarrow> string option \<Rightarrow> backend \<Rightarrow> LocalProMode" where
  "init model_name url b =
     \<lparr>model = py_or model_name MODEL, base_url = py_or url BASE_URL, client = b\<rparr>"

definition create :: "LocalProMode \<Rightarrow> caller \<Rightarrow> request \<Rightarrow> exn + response" where
  \<comment> \<open>\<^verbatim>\<open>self.client.chat.completions.create(...)\<close>\<close>
  "create self who req =
     (case client self who req of
        Inl msg \<Rightarrow> Inl (ClientError msg)
      | Inr resp \<Rightarrow> Inr resp)"

fun first_content :: "response \<Rightarrow> exn + unicode" where
  \<comment> \<open>\<^verbatim>\<open>resp.choices[0].message.content\<close>\<close>
  "first_content (Response []) = Inl IndexError"
| "first_content (Response (c # cs)) = Inr c"

subsection \<open>\<^verbatim>\<open>_one_completion\<close>\<close>

definition completion_request :: "LocalProMode \<Rightarrow> message list \<Rightarrow> rat \<Rightarrow> request" where
  "completion_request self msgs temperature =
     \<lparr>req_model = model self, req_messages = msgs, req_temperature = temperature,
      req_max_tokens = MAX_COMPLETION_TOKENS, req_top_p = 1, req_stream = False\<rparr>"

definition try_body :: "LocalProMode \<Rightarrow> caller \<Rightarrow> request \<Rightarrow> exn + unicode" where
  \<comment> \<open>The body of the \<^verbatim>\<open>try\<close>: the request, then the content of the first choice.\<close>
  "try_body self who req =
     (case create self who req of
        Inl e \<Rightarrow> Inl e
      | Inr resp \<Rightarrow> first_content resp)"

text \<open>
  Where \<^verbatim>\<open>_one_completion\<close> leaves: the \<^verbatim>\<open>return\<close> inside the \<^verbatim>\<open>try\<close>, the bare
  \<^verbatim>\<open>raise\<close> of the handler, or the \<^verbatim>\<open>return ""\<close> after the loop.
\<close>

datatype exit_point = Return_content | Reraise | Return_empty

text \<open>
  The loop \<^verbatim>\<open>for attempt in range(3)\<close>, over the attempts that remain, with the
  current \<^verbatim>\<open>delay\<close>. The result is the outcome, the exit taken and the trace.
\<close>

fun retry_loop ::
  "LocalProMode \<Rightarrow> nat \<Rightarrow> unicode \<Rightarrow> rat \<Rightarrow> rat \<Rightarrow> nat list \<Rightarrow>
     (exn + unicode) \<times> exit_point \<times> event list" where
  "retry_loop self u prompt temperature delay [] = (Inr [], Return_empty, [])"
| "retry_loop self u prompt temperature delay (attempt # rest) =
     (let req = completion_request self [\<lparr>role = ''user'', content = prompt\<rparr>] temperature
      in case try_body self (Candidate u attempt) req of
           Inr txt \<Rightarrow> (Inr txt, Return_content, [Create req])
         | Inl e \<Rightarrow>
             if attempt = 2 then (Inl e, Reraise, [Create req])
             else (case retry_loop self u prompt temperature (delay * 2) rest of
                     (r, x, evs) \<Rightarrow> (r, x, Create req # Sleep delay # evs)))"

definition one_completion ::
  "LocalProMode \<Rightarrow> nat \<Rightarrow> unicode \<Rightarrow> rat \<Rightarrow> (exn + unicode) \<times> exit_point \<times> event list" where
  "one_completion self u prompt temperature =
     retry_loop self u prompt temperature 0.5 [0..<3]"

definition outcome :: "(exn + unicode) \<times> exit_point \<times> event list \<Rightarrow> exn + unicode" where
  "outcome r = fst r"

definition exit_of :: "(exn + unicode) \<times> exit_point \<times> event list \<Rightarrow> exit_point" where
  "exit_of r = fst (snd r)"

definition trace :: "(exn + unicode) \<times> exit_point \<times> event list \<Rightarrow> event list" where
  "trace r = snd (snd r)"

subsection \<open>\<^verbatim>\<open>_build_synthesis_messages\<close>\<close>

abbreviation NL :: unicode where
  "NL \<equiv> [0x0A]"

definition digit :: "nat \<Rightarrow> nat" where
  \<comment> \<open>The code point of the decimal digit \<open>d\<close>.\<close>
  "digit d = of_char CHR ''0'' + d"

fun str :: "nat \<Rightarrow> unicode" where
  \<comment> \<open>\<^verbatim>\<open>str\<close> of a non-negative integer, as an f-string formats it.\<close>
  "str n = (if n < 10 then [digit n] else str (n div 10) @ [digit (n mod 10)])"

declare str.simps [simp del]

fun str_join :: "unicode \<Rightarrow> unicode list \<Rightarrow> unicode" where
  "str_join sep [] = []"
| "str_join sep [x] = x"
| "str_join sep (x # y # ys) = x @ sep @ str_join sep (y # ys)"

definition system_prompt :: unicode where
  "system_prompt =
     ascii
      (''You are an expert editor. Synthesize ONE best answer from the candidate '' @
       ''answers provided, merging strengths, correcting errors, and removing repetition. '' @
       ''Do not mention the candidates or the synthesis process. Be decisive and clear.'')"

definition numbered :: "unicode list \<Rightarrow> unicode" where
  "numbered cands =
     str_join (NL @ NL)
       (map (\<lambda>(i, txt). ascii ''<cand '' @ str (i + 1) @ ascii ''>'' @ NL @ txt @ NL @
                         ascii ''</cand '' @ str (i + 1) @ ascii ''>'')
            (List.enumerate 0 cands))"

definition user_prompt :: "unicode list \<Rightarrow> unicode" where
  "user_prompt cands =
     ascii ''You are given '' @ str (length cands) @
     ascii '' candidate answers delimited by <cand i> tags.'' @ NL @ NL @
     numbered cands @ NL @ NL @ ascii ''Return the single best final answer.''"

definition build_synthesis_messages :: "unicode list \<Rightarrow> message list" where
  "build_synthesis_messages cands =
     [\<lparr>role = ''system'', content = system_prompt\<rparr>,
      \<lparr>role = ''user'', content = user_prompt cands\<rparr>]"

subsection \<open>\<^verbatim>\<open>run\<close>\<close>

text \<open>
  The characters \<^verbatim>\<open>str.strip()\<close> removes, which are those of \<^verbatim>\<open>str.isspace\<close>: in the
  ASCII range tab, line feed, vertical tab, form feed, carriage return, the four
  separators \<^verbatim>\<open>0x1C\<close> to \<^verbatim>\<open>0x1F\<close> and the space; beyond it next line, no-break space,
  ogham space mark, en quad to hair space, line and paragraph separator, narrow no-break
  space, medium mathematical space and ideographic space. The zero width space
  \<^verbatim>\<open>U+200B\<close> is not among them.
\<close>

definition isspace :: "nat \<Rightarrow> bool" where
  "isspace c =
     (c \<in> set [0x09, 0x0A, 0x0B, 0x0C, 0x0D, 0x1C, 0x1D, 0x1E, 0x1F, 0x20,
               0x85, 0xA0, 0x1680,
               0x2000, 0x2001, 0x2002, 0x2003, 0x2004, 0x2005, 0x2006, 0x2007, 0x2008,
               0x2009, 0x200A,
               0x2028, 0x2029, 0x202F, 0x205F, 0x3000])"

definition strip :: "unicode \<Rightarrow> unicode" where
  "strip s = rev (dropWhile isspace (rev (dropWhile isspace s)))"

definition usable :: "unicode \<Rightarrow> bool" where
  \<comment> \<open>\<^verbatim>\<open>c and c.strip()\<close> as a condition: both strings are non-empty.\<close>
  "usable c = (c \<noteq> [] \<and> strip c \<noteq> [])"

record run_result =
  final :: unicode
  candidates :: "unicode list"

record effects =
  max_workers :: "int option"
  unit_traces :: "event list list"
  main_trace :: "event list"

text \<open>
  The loop over \<^verbatim>\<open>as_completed\<close>. \<open>fut i\<close> is the result of the future of unit \<open>i\<close>;
  \<open>order\<close> lists the units in the order their futures complete. \<^verbatim>\<open>as_completed\<close>
  yields every submitted future once, so \<open>order\<close> is a permutation of \<open>[0..<n]\<close> and
  every store is in range.
\<close>

fun collect :: "(nat \<Rightarrow> exn + unicode) \<Rightarrow> nat list \<Rightarrow> unicode list \<Rightarrow> unicode list" where
  "collect fut [] cands = cands"
| "collect fut (i # order) cands =
     collect fut order
       (case fut i of
          Inr txt \<Rightarrow> cands[i := txt]
        | Inl e \<Rightarrow> cands[i := []])"

definition completion_order :: "int \<Rightarrow> nat list \<Rightarrow> bool" where
  "completion_order n_runs order = (mset order = mset [0..<nat n_runs])"

definition dispatch :: "LocalProMode \<Rightarrow> unicode \<Rightarrow> int \<Rightarrow> nat list \<Rightarrow> unicode list" where
  \<comment> \<open>Lines 100 to 117: the slots, the submissions at temperature 0.9, the collection.\<close>
  "dispatch self prompt n_runs order =
     collect (\<lambda>i. outcome (one_completion self i prompt 0.9)) order
       (replicate (nat n_runs) [])"

definition dispatch_traces :: "LocalProMode \<Rightarrow> unicode \<Rightarrow> int \<Rightarrow> event list list" where
  "dispatch_traces self prompt n_runs =
     map (\<lambda>i. trace (one_completion self i prompt 0.9)) [0..<nat n_runs]"

definition run ::
  "LocalProMode \<Rightarrow> unicode \<Rightarrow> int \<Rightarrow> nat list \<Rightarrow> (exn + run_result) \<times> effects" where
  "run self prompt n_runs order =
     (if n_runs < 1 then
        (Inl (ValueError ''n_runs must be >= 1''),
         \<lparr>max_workers = None, unit_traces = [], main_trace = []\<rparr>)
      else
        let workers = min n_runs 16;
            cands = dispatch self prompt n_runs order;
            traces = dispatch_traces self prompt n_runs;
            filtered = filter usable cands
        in if filtered = [] then
             (Inl (RuntimeError ''All candidate generations failed.''),
              \<lparr>max_workers = Some workers, unit_traces = traces, main_trace = []\<rparr>)
           else
             let messages = build_synthesis_messages filtered;
                 req = completion_request self messages 0.2
             in (case create self Synthesis req of
                   Inl e \<Rightarrow> Inl e
                 | Inr final_resp \<Rightarrow>
                     (case first_content final_resp of
                        Inl e \<Rightarrow> Inl e
                      | Inr txt \<Rightarrow> Inr \<lparr>final = txt, candidates = cands\<rparr>),
                 \<lparr>max_workers = Some workers, unit_traces = traces,
                  main_trace = [Create req]\<rparr>))"

subsection \<open>Vocabulary of the properties\<close>

definition candidate_request :: "LocalProMode \<Rightarrow> unicode \<Rightarrow> rat \<Rightarrow> request" where
  \<comment> \<open>The request of every attempt of \<^verbatim>\<open>_one_completion\<close>.\<close>
  "candidate_request self prompt temperature =
     completion_request self [\<lparr>role = ''user'', content = prompt\<rparr>] temperature"

definition synthesis_request :: "LocalProMode \<Rightarrow> unicode list \<Rightarrow> request" where
  \<comment> \<open>The request of the synthesis pass, for the candidate slots \<open>cands\<close>.\<close>
  "synthesis_request self cands =
     completion_request self (build_synthesis_messages (filter usable cands)) 0.2"

definition recorded :: "exn + unicode \<Rightarrow> unicode" where
  \<comment> \<open>What the outcome of a unit leaves in its slot: its text, or the empty string.\<close>
  "recorded r = (case r of Inr txt \<Rightarrow> txt | Inl e \<Rightarrow> [])"

definition whitespace :: "nat set" where
  \<comment> \<open>The Unicode whitespace of Python, by ranges of code points.\<close>
  "whitespace =
     {0x09..0x0D} \<union> {0x1C..0x20} \<union> {0x85, 0xA0, 0x1680} \<union> {0x2000..0x200A} \<union>
     {0x2028, 0x2029, 0x202F, 0x205F, 0x3000}"

definition blank :: "unicode \<Rightarrow> bool" where
  \<comment> \<open>Empty or whitespace-only.\<close>
  "blank c = (set c \<subseteq> whitespace)"

definition cand_block :: "nat \<Rightarrow> unicode \<Rightarrow> unicode" where
  \<comment> \<open>The block \<^verbatim>\<open><cand i>...</cand i>\<close> of the candidate labelled \<open>i\<close>.\<close>
  "cand_block i txt =
     ascii ''<cand '' @ str i @ ascii ''>'' @ NL @ txt @ NL @
     ascii ''</cand '' @ str i @ ascii ''>''"

definition decimal :: "unicode \<Rightarrow> nat" where
  \<comment> \<open>The number a text of decimal digits denotes.\<close>
  "decimal cs = foldl (\<lambda>a c. 10 * a + (c - 48)) 0 cs"

fun is_create :: "event \<Rightarrow> bool" where
  "is_create (Create req) = True"
| "is_create (Sleep d) = False"

definition backend_requests :: "effects \<Rightarrow> event list" where
  \<comment> \<open>Every backend request of a run: those of the units, then those of the main thread.\<close>
  "backend_requests fx = filter is_create (concat (unit_traces fx) @ main_trace fx)"

subsection \<open>Scheduling\<close>

text \<open>
  A completion service that answers by arrival: \<open>svc k\<close> is its answer to the call that
  reaches it as the \<open>k\<close>-th. Which call that is depends on how the threads of the units
  are scheduled; \<open>arrival\<close> gives the position at which each call arrives in one
  execution, and \<open>by_arrival\<close> the backend that this execution sees.
\<close>

type_synonym service = "nat \<Rightarrow> request \<Rightarrow> string + response"

definition by_arrival :: "service \<Rightarrow> (caller \<Rightarrow> nat) \<Rightarrow> backend" where
  "by_arrival svc arrival who req = svc (arrival who) req"

definition queue_service :: service where
  \<comment> \<open>A mock with one fixed output per call: A, then B, then F.\<close>
  "queue_service k req =
     (if k < 3 then Inr (Response [[ascii ''A'', ascii ''B'', ascii ''F''] ! k])
      else Inl ''no more outputs'')"

definition echo_service :: service where
  \<comment> \<open>A function of the request alone: the content of its first message.\<close>
  "echo_service k req =
     (case req_messages req of
        [] \<Rightarrow> Inl ''no message''
      | m # ms \<Rightarrow> Inr (Response [content m]))"

definition unit0_first :: "caller \<Rightarrow> nat" where
  \<comment> \<open>The request of unit 0 arrives first, then that of unit 1, then the synthesis.\<close>
  "unit0_first who = (case who of Candidate i k \<Rightarrow> if i = 0 then 0 else 1 | Synthesis \<Rightarrow> 2)"

definition unit1_first :: "caller \<Rightarrow> nat" where
  \<comment> \<open>The request of unit 1 arrives first, then that of unit 0, then the synthesis.\<close>
  "unit1_first who = (case who of Candidate i k \<Rightarrow> if i = 1 then 0 else 1 | Synthesis \<Rightarrow> 2)"

subsection \<open>Backends of the examples\<close>

definition scenario_backend :: backend where
  \<comment> \<open>Unit 0 answers A, unit 1 is down, unit 2 answers B on its second attempt.\<close>
  "scenario_backend who req =
     (case who of
        Candidate i k \<Rightarrow>
          if i = 0 then Inr (Response [ascii ''A''])
          else if i = 1 then Inl ''connection refused''
          else if k = 0 then Inl ''timeout'' else Inr (Response [ascii ''B''])
      | Synthesis \<Rightarrow> Inr (Response [ascii ''AB'']))"

definition down_backend :: backend where
  \<comment> \<open>Every request fails.\<close>
  "down_backend who req = Inl ''connection refused''"

definition empty_backend :: backend where
  \<comment> \<open>Unit 0 answers A; every other unit answers the empty text.\<close>
  "empty_backend who req =
     (case who of
        Candidate i k \<Rightarrow> if i = 0 then Inr (Response [ascii ''A'']) else Inr (Response [[]])
      | Synthesis \<Rightarrow> Inr (Response [ascii ''F'']))"

definition blank_backend :: backend where
  \<comment> \<open>Every request is answered with a tab and a no-break space.\<close>
  "blank_backend who req = Inr (Response [[0x09, 0xA0]])"

definition synthesis_down_backend :: backend where
  \<comment> \<open>The candidates answer A; the synthesis request fails.\<close>
  "synthesis_down_backend who req =
     (case who of
        Candidate i k \<Rightarrow> Inr (Response [ascii ''A''])
      | Synthesis \<Rightarrow> Inl ''model unloaded'')"

definition whitespace_backend :: backend where
  \<comment> \<open>Unit 0 answers A; every other unit answers a line feed, an ideographic space and a space.\<close>
  "whitespace_backend who req =
     (case who of
        Candidate i k \<Rightarrow>
          if i = 0 then Inr (Response [ascii ''A''])
          else Inr (Response [[0x0A, 0x3000, 0x20]])
      | Synthesis \<Rightarrow> Inr (Response [ascii ''F'']))"

definition scenario :: LocalProMode where
  "scenario = init None None scenario_backend"

definition down_self :: LocalProMode where
  "down_self = init None None down_backend"

definition empty_self :: LocalProMode where
  "empty_self = init None None empty_backend"

definition blank_self :: LocalProMode where
  "blank_self = init None None blank_backend"

definition whitespace_self :: LocalProMode where
  "whitespace_self = init None None whitespace_backend"

definition synthesis_down_self :: LocalProMode where
  "synthesis_down_self = init None None synthesis_down_backend"

section \<open>Properties\<close>

lemma upt3: "[0..<3] = [0, 1, 2]"
  by (simp add: upt_rec)

lemma one_completion_unfold:
  "one_completion self u prompt t =
     (let req = candidate_request self prompt t in
      case try_body self (Candidate u 0) req of
        Inr txt \<Rightarrow> (Inr txt, Return_content, [Create req])
      | Inl e0 \<Rightarrow>
         (case try_body self (Candidate u 1) req of
            Inr txt \<Rightarrow> (Inr txt, Return_content, [Create req, Sleep 0.5, Create req])
          | Inl e1 \<Rightarrow>
             (case try_body self (Candidate u 2) req of
                Inr txt \<Rightarrow> (Inr txt, Return_content,
                   [Create req, Sleep 0.5, Create req, Sleep 1, Create req])
              | Inl e2 \<Rightarrow> (Inl e2, Reraise,
                   [Create req, Sleep 0.5, Create req, Sleep 1, Create req]))))"
  by (simp add: one_completion_def upt3 candidate_request_def Let_def split: sum.splits)

lemma collect_update:
  "(case r of Inr txt \<Rightarrow> cands[i := txt] | Inl e \<Rightarrow> cands[i := []]) = cands[i := recorded r]"
  by (cases r) (simp_all add: recorded_def)

lemma length_collect: "length (collect fut order cands) = length cands"
  by (induction order arbitrary: cands) (simp_all add: collect_update)

lemma nth_collect:
  "i < length cands \<Longrightarrow>
   collect fut order cands ! i = (if i \<in> set order then recorded (fut i) else cands ! i)"
proof (induction order arbitrary: cands)
  case Nil
  then show ?case by simp
next
  case (Cons j order)
  then show ?case
    by (simp add: collect_update nth_list_update)
qed

lemma completion_order_set:
  "completion_order n order \<Longrightarrow> set order = {0..<nat n}"
  unfolding completion_order_def by (metis mset_eq_setD set_upt)

lemma length_dispatch: "length (dispatch self prompt n order) = nat n"
  by (simp add: dispatch_def length_collect)

lemma nth_dispatch:
  assumes "completion_order n order" and "i < nat n"
  shows "dispatch self prompt n order ! i = recorded (outcome (one_completion self i prompt 0.9))"
  using assms by (simp add: dispatch_def nth_collect completion_order_set)

lemma dispatch_eq:
  assumes "completion_order n order"
  shows "dispatch self prompt n order =
         map (\<lambda>i. recorded (outcome (one_completion self i prompt 0.9))) [0..<nat n]"
  by (rule nth_equalityI) (simp_all add: length_dispatch nth_dispatch [OF assms])

lemma isspace_iff: "isspace c \<longleftrightarrow> c \<in> whitespace"
proof
  assume "isspace c"
  then show "c \<in> whitespace"
    unfolding isspace_def whitespace_def by auto
next
  assume "c \<in> whitespace"
  then consider "9 \<le> c \<and> c \<le> 13" | "28 \<le> c \<and> c \<le> 32" | "c = 133" | "c = 160"
    | "c = 5760" | "8192 \<le> c \<and> c \<le> 8202" | "c = 8232" | "c = 8233" | "c = 8239"
    | "c = 8287" | "c = 12288"
    unfolding whitespace_def by auto
  then show "isspace c"
  proof cases
    case 1
    then have "c = 9 \<or> c = 10 \<or> c = 11 \<or> c = 12 \<or> c = 13" by arith
    then show ?thesis unfolding isspace_def by auto
  next
    case 2
    then have "c = 28 \<or> c = 29 \<or> c = 30 \<or> c = 31 \<or> c = 32" by arith
    then show ?thesis unfolding isspace_def by auto
  next
    case 6
    then have "c = 8192 \<or> c = 8193 \<or> c = 8194 \<or> c = 8195 \<or> c = 8196 \<or> c = 8197 \<or>
               c = 8198 \<or> c = 8199 \<or> c = 8200 \<or> c = 8201 \<or> c = 8202" by arith
    then show ?thesis unfolding isspace_def by auto
  qed (simp_all add: isspace_def)
qed

lemma strip_empty_iff: "strip s = [] \<longleftrightarrow> blank s"
proof -
  have "(\<forall>x \<in> set (dropWhile isspace s). isspace x) \<longleftrightarrow> (\<forall>x \<in> set s. isspace x)"
    by (metis dropWhile_eq_Nil_conv hd_dropWhile list.set_sel(1) empty_iff list.set(1))
  then show ?thesis
    by (auto simp: strip_def blank_def isspace_iff)
qed

lemma usable_iff: "usable c \<longleftrightarrow> \<not> blank c"
  by (auto simp: usable_def strip_empty_iff blank_def)

lemma run_ok:
  assumes "1 \<le> n"
  shows "run self prompt n order =
    (let cands = dispatch self prompt n order;
         fx = \<lparr>max_workers = Some (min n 16), unit_traces = dispatch_traces self prompt n,
               main_trace = []\<rparr>
     in if filter usable cands = [] then
          (Inl (RuntimeError ''All candidate generations failed.''), fx)
        else
          (case try_body self Synthesis (synthesis_request self cands) of
             Inl e \<Rightarrow> Inl e
           | Inr txt \<Rightarrow> Inr \<lparr>final = txt, candidates = cands\<rparr>,
           fx\<lparr>main_trace := [Create (synthesis_request self cands)]\<rparr>))"
  using assms
  by (simp add: run_def Let_def try_body_def synthesis_request_def split: sum.splits)


lemma run_fst:
  assumes "1 \<le> n"
  shows "fst (run self prompt n order) =
    (if filter usable (dispatch self prompt n order) = [] then
       Inl (RuntimeError ''All candidate generations failed.'')
     else
       (case try_body self Synthesis (synthesis_request self (dispatch self prompt n order)) of
          Inl e \<Rightarrow> Inl e
        | Inr txt \<Rightarrow> Inr \<lparr>final = txt, candidates = dispatch self prompt n order\<rparr>))"
  by (simp add: run_ok [OF assms] Let_def)

lemma run_main_trace:
  assumes "1 \<le> n"
  shows "main_trace (snd (run self prompt n order)) =
    (if filter usable (dispatch self prompt n order) = [] then []
     else [Create (synthesis_request self (dispatch self prompt n order))])"
  by (simp add: run_ok [OF assms] Let_def)

lemma run_unit_traces:
  assumes "1 \<le> n"
  shows "unit_traces (snd (run self prompt n order)) = dispatch_traces self prompt n"
  by (simp add: run_ok [OF assms] Let_def)

lemma run_returns_candidates:
  assumes "1 \<le> n" and "fst (run self prompt n order) = Inr res"
  shows "candidates res = dispatch self prompt n order"
  using assms(2) unfolding run_fst [OF assms(1)]
  by (auto split: if_splits sum.splits)

text \<open>
  Claim C1, as the code has it. For every \<open>n \<ge> 1\<close> and every completion order, a run that
  returns yields exactly \<open>n\<close> candidate entries, and entry \<open>i\<close> is what unit \<open>i\<close> left:
  the text its completion returned when it succeeded, whatever that text is, and the
  empty string when it failed.
\<close>

theorem run_candidates_by_index:
  assumes "1 \<le> n" and "completion_order n order"
    and "fst (run self prompt n order) = Inr res"
  shows "length (candidates res) = nat n \<and>
         (\<forall>i<nat n. candidates res ! i =
                      recorded (outcome (one_completion self i prompt 0.9)))"
proof -
  have "candidates res = dispatch self prompt n order"
    using assms(1,3) by (rule run_returns_candidates)
  then show ?thesis
    by (simp add: length_dispatch nth_dispatch [OF assms(2)])
qed


lemma isl_recorded: "isl r \<Longrightarrow> recorded r = []"
  by (cases r) (simp_all add: recorded_def)

text \<open>
  Claim C2. If every one of the \<open>n\<close> units fails, \<open>run\<close> raises
  \<^verbatim>\<open>RuntimeError("All candidate generations failed.")\<close> and the main thread issues no
  request: the synthesis request is never made.
\<close>

theorem all_units_fail_no_synthesis:
  assumes "1 \<le> n" and "completion_order n order"
    and "\<forall>i<nat n. isl (outcome (one_completion self i prompt 0.9))"
  shows "fst (run self prompt n order) =
           Inl (RuntimeError ''All candidate generations failed.'') \<and>
         main_trace (snd (run self prompt n order)) = []"
proof -
  have "dispatch self prompt n order = map (\<lambda>i. []) [0..<nat n]"
    unfolding dispatch_eq [OF assms(2)] using assms(3)
    by (simp add: isl_recorded)
  then have "filter usable (dispatch self prompt n order) = []"
    by (simp add: filter_empty_conv usable_def)
  then show ?thesis
    by (simp add: run_fst [OF assms(1)] run_main_trace [OF assms(1)])
qed

lemma one_completion_trace_shapes:
  "trace (one_completion self u prompt t) \<in>
     {[Create (candidate_request self prompt t)],
      [Create (candidate_request self prompt t), Sleep 0.5,
       Create (candidate_request self prompt t)],
      [Create (candidate_request self prompt t), Sleep 0.5,
       Create (candidate_request self prompt t), Sleep 1,
       Create (candidate_request self prompt t)]}"
  by (simp add: one_completion_unfold Let_def trace_def split: sum.splits)

lemma one_completion_all_fail:
  assumes "\<forall>k<3. isl (try_body self (Candidate u k) (candidate_request self prompt t))"
  shows "isl (outcome (one_completion self u prompt t)) \<and>
         trace (one_completion self u prompt t) =
           [Create (candidate_request self prompt t), Sleep 0.5,
            Create (candidate_request self prompt t), Sleep 1,
            Create (candidate_request self prompt t)]"
proof -
  have "isl (try_body self (Candidate u 0) (candidate_request self prompt t))"
    and "isl (try_body self (Candidate u 1) (candidate_request self prompt t))"
    and "isl (try_body self (Candidate u 2) (candidate_request self prompt t))"
    using assms by simp_all
  then show ?thesis
    by (auto simp: one_completion_unfold Let_def trace_def outcome_def isl_def)
qed

lemma run_error_origin:
  assumes "1 \<le> n" and "fst (run self prompt n order) = Inl e"
  shows "e = RuntimeError ''All candidate generations failed.'' \<or>
         try_body self Synthesis (synthesis_request self (dispatch self prompt n order)) = Inl e"
  using assms(2) unfolding run_fst [OF assms(1)]
  by (auto split: if_splits sum.splits)

text \<open>
  Claim C3. A unit makes one, two or three requests, separated by a sleep of 0.5 and then
  of 1.0 seconds, and nothing else: at most three attempts and two waits. A unit whose
  three attempts all fail ends in failure after exactly that full trace; its slot holds
  the empty string, and an error raised by \<open>run\<close> is then its own
  \<^verbatim>\<open>RuntimeError\<close> or the error of the synthesis request, never the unit's.
\<close>

theorem unit_retry_policy:
  "(let req = candidate_request self prompt t; r = one_completion self u prompt t in
      (trace r = [Create req] \<or>
       trace r = [Create req, Sleep 0.5, Create req] \<or>
       trace r = [Create req, Sleep 0.5, Create req, Sleep 1, Create req]) \<and>
      length (filter is_create (trace r)) \<le> 3 \<and>
      ((\<forall>k<3. isl (try_body self (Candidate u k) req)) \<longrightarrow>
         isl (outcome r) \<and>
         trace r = [Create req, Sleep 0.5, Create req, Sleep 1, Create req])) \<and>
   (1 \<le> n \<and> completion_order n order \<and> i < nat n \<and>
    (\<forall>k<3. isl (try_body self (Candidate i k) (candidate_request self prompt 0.9))) \<longrightarrow>
      dispatch self prompt n order ! i = [] \<and>
      (\<forall>e. fst (run self prompt n order) = Inl e \<longrightarrow>
         e = RuntimeError ''All candidate generations failed.'' \<or>
         try_body self Synthesis (synthesis_request self (dispatch self prompt n order)) =
           Inl e))"
proof -
  let ?req = "candidate_request self prompt t"
  let ?r = "one_completion self u prompt t"
  have shapes: "trace ?r = [Create ?req] \<or>
       trace ?r = [Create ?req, Sleep 0.5, Create ?req] \<or>
       trace ?r = [Create ?req, Sleep 0.5, Create ?req, Sleep 1, Create ?req]"
    using one_completion_trace_shapes [of self u prompt t] by simp
  then have count: "length (filter is_create (trace ?r)) \<le> 3"
    by auto
  have slot: "dispatch self prompt n order ! i = []"
    if "completion_order n order" "i < nat n"
      "\<forall>k<3. isl (try_body self (Candidate i k) (candidate_request self prompt 0.9))"
    using that one_completion_all_fail [of self i prompt "0.9"]
    by (simp add: nth_dispatch isl_recorded)
  show ?thesis
    using shapes count slot one_completion_all_fail [of self u prompt t] run_error_origin
    by (simp add: Let_def)
qed


lemma decimal_snoc: "decimal (cs @ [c]) = 10 * decimal cs + (c - 48)"
  by (simp add: decimal_def)

lemma decimal_str: "decimal (str n) = n"
proof (induction n rule: str.induct)
  case (1 n)
  show ?case
  proof (cases "n < 10")
    case True
    then show ?thesis
      by (simp add: str.simps [of n] decimal_def digit_def)
  next
    case False
    with 1 show ?thesis
      by (simp add: str.simps [of n] decimal_snoc digit_def)
  qed
qed

lemma str_join_split:
  assumes "i < length xs"
  shows "str_join sep xs =
           concat (map (\<lambda>x. x @ sep) (take i xs)) @ xs ! i @
           concat (map (\<lambda>x. sep @ x) (drop (Suc i) xs))"
  using assms
proof (induction sep xs arbitrary: i rule: str_join.induct)
  case (1 sep)
  then show ?case by simp
next
  case (2 sep x)
  then show ?case by simp
next
  case (3 sep x y ys)
  show ?case
  proof (cases i)
    case 0
    have "str_join sep (y # ys) =
            y @ concat (map (\<lambda>x. sep @ x) ys)"
      using "3.IH" [of 0] by simp
    with 0 show ?thesis by simp
  next
    case (Suc j)
    with "3.prems" have "j < length (y # ys)" by simp
    from "3.IH" [OF this] Suc show ?thesis by simp
  qed
qed

lemma numbered_blocks:
  "numbered cands =
     str_join (NL @ NL) (map (\<lambda>i. cand_block (i + 1) (cands ! i)) [0..<length cands])"
proof -
  have "map (\<lambda>(i, txt). ascii ''<cand '' @ str (i + 1) @ ascii ''>'' @ NL @ txt @ NL @
                         ascii ''</cand '' @ str (i + 1) @ ascii ''>'')
          (List.enumerate 0 cands) =
        map (\<lambda>i. cand_block (i + 1) (cands ! i)) [0..<length cands]"
    by (rule nth_equalityI) (simp_all add: nth_enumerate_eq cand_block_def)
  then show ?thesis
    by (simp add: numbered_def)
qed

text \<open>
  Claim C4. For a non-empty list of \<open>k\<close> filtered candidates, the user message of the
  synthesis request is the header with the count \<open>k\<close>, a body, and the closing
  instruction. For every \<open>i < k\<close> the body is: the blocks of the candidates before \<open>i\<close>,
  in order, each followed by a blank line; the block of candidate \<open>i\<close>; the blocks of
  the candidates after \<open>i\<close>, in order, each preceded by a blank line. The block of
  candidate \<open>i\<close> is its text between the tags \<^verbatim>\<open><cand i+1>\<close> and \<^verbatim>\<open></cand i+1>\<close>,
  the label being the decimal numeral of \<open>i + 1\<close>. So the body holds one block for each
  candidate, labelled 1 to \<open>k\<close> in the order given, and nothing else but the separators;
  for \<open>k = 1\<close> it is the single block.
\<close>

theorem synthesis_blocks:
  assumes "cands \<noteq> []"
  shows "\<exists>body.
           build_synthesis_messages cands =
             [\<lparr>role = ''system'', content = system_prompt\<rparr>,
              \<lparr>role = ''user'',
               content =
                 ascii ''You are given '' @ str (length cands) @
                 ascii '' candidate answers delimited by <cand i> tags.'' @ NL @ NL @
                 body @ NL @ NL @
                 ascii ''Return the single best final answer.''\<rparr>] \<and>
           (\<forall>i<length cands.
              body =
                concat (map (\<lambda>j. cand_block (j + 1) (cands ! j) @ NL @ NL) [0..<i]) @
                cand_block (i + 1) (cands ! i) @
                concat (map (\<lambda>j. NL @ NL @ cand_block (j + 1) (cands ! j))
                          [i + 1..<length cands]) \<and>
              decimal (str (i + 1)) = i + 1) \<and>
           decimal (str (length cands)) = length cands \<and>
           (length cands = 1 \<longrightarrow> body = cand_block 1 (cands ! 0))"
proof (intro exI conjI)
  let ?blocks = "map (\<lambda>i. cand_block (i + 1) (cands ! i)) [0..<length cands]"
  show "build_synthesis_messages cands =
             [\<lparr>role = ''system'', content = system_prompt\<rparr>,
              \<lparr>role = ''user'',
               content =
                 ascii ''You are given '' @ str (length cands) @
                 ascii '' candidate answers delimited by <cand i> tags.'' @ NL @ NL @
                 numbered cands @ NL @ NL @
                 ascii ''Return the single best final answer.''\<rparr>]"
    by (simp add: build_synthesis_messages_def user_prompt_def)
  show "\<forall>i<length cands.
          numbered cands =
            concat (map (\<lambda>j. cand_block (j + 1) (cands ! j) @ NL @ NL) [0..<i]) @
            cand_block (i + 1) (cands ! i) @
            concat (map (\<lambda>j. NL @ NL @ cand_block (j + 1) (cands ! j))
                      [i + 1..<length cands]) \<and>
          decimal (str (i + 1)) = i + 1"
  proof (intro allI impI conjI)
    fix i
    assume i: "i < length cands"
    then have "i < length ?blocks" by simp
    from str_join_split [OF this, of "NL @ NL"] i
    show "numbered cands =
            concat (map (\<lambda>j. cand_block (j + 1) (cands ! j) @ NL @ NL) [0..<i]) @
            cand_block (i + 1) (cands ! i) @
            concat (map (\<lambda>j. NL @ NL @ cand_block (j + 1) (cands ! j))
                      [i + 1..<length cands])"
      by (simp add: numbered_blocks take_map drop_map comp_def)
    show "decimal (str (i + 1)) = i + 1"
      by (rule decimal_str)
  qed
  show "decimal (str (length cands)) = length cands"
    by (rule decimal_str)
  show "length cands = 1 \<longrightarrow> numbered cands = cand_block 1 (cands ! 0)"
    by (simp add: numbered_blocks)
qed

lemma dispatch_traces_temperature:
  assumes "tr \<in> set (dispatch_traces self prompt n)" and "Create req \<in> set tr"
  shows "req = candidate_request self prompt 0.9"
proof -
  from assms(1) obtain i where tr: "tr = trace (one_completion self i prompt 0.9)"
    by (auto simp: dispatch_traces_def)
  show ?thesis
    using one_completion_trace_shapes [of self i prompt "0.9"] assms(2)
    unfolding tr by auto
qed

lemma temperature_candidate_request [simp]:
  "req_temperature (candidate_request self prompt t) = t"
  by (simp add: candidate_request_def completion_request_def)

lemma temperature_synthesis_request [simp]:
  "req_temperature (synthesis_request self cands) = 0.2"
  by (simp add: synthesis_request_def completion_request_def)

text \<open>
  Claim C5. When some candidate is usable, the main thread issues exactly one request,
  the synthesis request, at temperature 0.2; if that request fails, the error is the
  result of \<open>run\<close>, with no second request. Every request of every dispatch unit has
  temperature 0.9.
\<close>

theorem synthesis_once_no_retry:
  assumes "1 \<le> n"
  shows "(filter usable (dispatch self prompt n order) \<noteq> [] \<longrightarrow>
            main_trace (snd (run self prompt n order)) =
              [Create (synthesis_request self (dispatch self prompt n order))] \<and>
            req_temperature (synthesis_request self (dispatch self prompt n order)) = 0.2 \<and>
            (\<forall>e. try_body self Synthesis
                    (synthesis_request self (dispatch self prompt n order)) = Inl e \<longrightarrow>
                 fst (run self prompt n order) = Inl e)) \<and>
         (\<forall>tr \<in> set (unit_traces (snd (run self prompt n order))).
            \<forall>req. Create req \<in> set tr \<longrightarrow> req_temperature req = 0.9)"
proof -
  have "req_temperature req = 0.9"
    if "tr \<in> set (dispatch_traces self prompt n)" "Create req \<in> set tr" for tr req
    using dispatch_traces_temperature [OF that] by simp
  then show ?thesis
    by (auto simp: run_fst [OF assms] run_main_trace [OF assms] run_unit_traces [OF assms])
qed

text \<open>
  Claim C6. For \<open>n < 1\<close>, \<open>run\<close> raises \<^verbatim>\<open>ValueError("n_runs must be >= 1")\<close> and no
  request is issued, by a unit or by the main thread.
\<close>

theorem invalid_n_fails_fast:
  assumes "n < 1"
  shows "fst (run self prompt n order) = Inl (ValueError ''n_runs must be >= 1'') \<and>
         unit_traces (snd (run self prompt n order)) = [] \<and>
         main_trace (snd (run self prompt n order)) = [] \<and>
         backend_requests (snd (run self prompt n order)) = []"
  using assms by (simp add: run_def backend_requests_def)


lemma try_body_error:
  assumes "try_body self who req = Inl e"
  shows "e = IndexError \<or> (\<exists>msg. e = ClientError msg)"
proof (cases "client self who req")
  case (Inl msg)
  with assms show ?thesis by (auto simp: try_body_def create_def)
next
  case (Inr resp)
  with assms show ?thesis
    by (cases resp rule: first_content.cases) (auto simp: try_body_def create_def)
qed

lemma run_all_failed_iff:
  assumes "1 \<le> n"
  shows "fst (run self prompt n order) = Inl (RuntimeError ''All candidate generations failed.'')
         \<longleftrightarrow> filter usable (dispatch self prompt n order) = []"
proof
  assume err: "fst (run self prompt n order) =
                 Inl (RuntimeError ''All candidate generations failed.'')"
  show "filter usable (dispatch self prompt n order) = []"
  proof (rule ccontr)
    assume "filter usable (dispatch self prompt n order) \<noteq> []"
    with err have "try_body self Synthesis (synthesis_request self (dispatch self prompt n order))
                     = Inl (RuntimeError ''All candidate generations failed.'')"
      by (simp add: run_fst [OF assms] split: sum.splits)
    then show False
      using try_body_error by fastforce
  qed
next
  assume "filter usable (dispatch self prompt n order) = []"
  then show "fst (run self prompt n order) =
               Inl (RuntimeError ''All candidate generations failed.'')"
    by (simp add: run_fst [OF assms])
qed

lemma blank_self_outcome: "outcome (one_completion blank_self i p t) = Inr [0x09, 0xA0]"
  by (simp add: one_completion_unfold Let_def try_body_def create_def blank_self_def init_def
      blank_backend_def outcome_def)

lemma order1: "completion_order 1 [0]"
  by (simp add: completion_order_def)

lemma blank_self_dispatch: "dispatch blank_self (ascii ''p'') 1 [0] = [[0x09, 0xA0]]"
  using dispatch_eq [OF order1, of blank_self "ascii ''p''"]
  by (simp add: blank_self_outcome recorded_def)

lemma blank_self_run:
  "fst (run blank_self (ascii ''p'') 1 [0]) = Inl (RuntimeError ''All candidate generations failed.'')"
  by (simp add: run_fst blank_self_dispatch usable_def strip_def isspace_def)

text \<open>
  Claim C8. For \<open>n \<ge> 1\<close>, \<open>run\<close> raises
  \<^verbatim>\<open>RuntimeError("All candidate generations failed.")\<close> exactly when every slot is
  empty or whitespace-only, whitespace being the Unicode whitespace of Python (the code
  points of \<open>whitespace\<close>). The filter keeps exactly the slots that are not; so the
  whitespace-only text of a unit that succeeded is not in the synthesis input, yet a
  run that returns has it unchanged in its slot of the candidates. And there is a run in
  which every unit succeeds and that raises this error.
\<close>

theorem all_failed_iff_all_blank:
  assumes "1 \<le> n" and "completion_order n order"
  shows "(fst (run self prompt n order) =
            Inl (RuntimeError ''All candidate generations failed.'') \<longleftrightarrow>
          (\<forall>c \<in> set (dispatch self prompt n order). blank c)) \<and>
         filter usable (dispatch self prompt n order) =
           filter (\<lambda>c. \<not> blank c) (dispatch self prompt n order) \<and>
         (\<forall>i txt. i < nat n \<and> outcome (one_completion self i prompt 0.9) = Inr txt \<longrightarrow>
            (blank txt \<longrightarrow> txt \<notin> set (filter usable (dispatch self prompt n order))) \<and>
            (\<forall>res. fst (run self prompt n order) = Inr res \<longrightarrow> candidates res ! i = txt)) \<and>
         (\<exists>self' prompt' n' order'.
            1 \<le> n' \<and> completion_order n' order' \<and>
            (\<forall>i<nat n'. \<not> isl (outcome (one_completion self' i prompt' 0.9))) \<and>
            fst (run self' prompt' n' order') =
              Inl (RuntimeError ''All candidate generations failed.''))"
proof (intro conjI)
  show "fst (run self prompt n order) =
            Inl (RuntimeError ''All candidate generations failed.'') \<longleftrightarrow>
          (\<forall>c \<in> set (dispatch self prompt n order). blank c)"
    by (simp add: run_all_failed_iff [OF assms(1)] filter_empty_conv usable_iff)
  show "filter usable (dispatch self prompt n order) =
           filter (\<lambda>c. \<not> blank c) (dispatch self prompt n order)"
    by (rule filter_cong) (simp_all add: usable_iff)
  show "\<forall>i txt. i < nat n \<and> outcome (one_completion self i prompt 0.9) = Inr txt \<longrightarrow>
            (blank txt \<longrightarrow> txt \<notin> set (filter usable (dispatch self prompt n order))) \<and>
            (\<forall>res. fst (run self prompt n order) = Inr res \<longrightarrow> candidates res ! i = txt)"
  proof (intro allI impI conjI)
    fix i s res
    assume h: "i < nat n \<and> outcome (one_completion self i prompt 0.9) = Inr s"
    show "s \<notin> set (filter usable (dispatch self prompt n order))" if "blank s"
      using that by (simp add: usable_iff)
    assume "fst (run self prompt n order) = Inr res"
    then have "candidates res = dispatch self prompt n order"
      using assms(1) by (simp add: run_returns_candidates)
    then show "candidates res ! i = s"
      using h by (simp add: nth_dispatch [OF assms(2)] recorded_def)
  qed
  have "\<forall>i<nat 1. \<not> isl (outcome (one_completion blank_self i (ascii ''p'') 0.9))"
    by (simp add: blank_self_outcome)
  then show "\<exists>self' prompt' n' order'.
            1 \<le> n' \<and> completion_order n' order' \<and>
            (\<forall>i<nat n'. \<not> isl (outcome (one_completion self' i prompt' 0.9))) \<and>
            fst (run self' prompt' n' order') =
              Inl (RuntimeError ''All candidate generations failed.'')"
    using order1 blank_self_run by (intro exI [of _ blank_self] exI [of _ "ascii ''p''"] exI [of _ 1] exI [of _ "[0]"]) simp
qed

lemma run_any_order:
  assumes "completion_order n order1" and "completion_order n order2"
  shows "run self prompt n order1 = run self prompt n order2"
proof (cases "n < 1")
  case True
  then show ?thesis by (simp add: run_def)
next
  case False
  then have n: "1 \<le> n" by simp
  have "dispatch self prompt n order1 = dispatch self prompt n order2"
    by (simp add: dispatch_eq [OF assms(1)] dispatch_eq [OF assms(2)])
  then show ?thesis
    by (simp add: run_ok [OF n])
qed

text \<open>
  Claim C9, as the code has it. Two invocations of \<open>run\<close> on the same prompt and the same
  \<open>n\<close> may differ in the order in which the calls of the units reach the service and in
  the order in which the units complete. If the service gives every call (attempt \<open>k\<close>
  of unit \<open>i\<close>, or the synthesis request) the same answer in both invocations, then both
  give the same result, candidates and final text, and the same traces. A service that
  is a function of the request alone does so under every scheduling.
\<close>

theorem run_same_answers_same_result:
  assumes "completion_order n order1" and "completion_order n order2"
  shows "((\<forall>who req. svc (arrival1 who) req = svc (arrival2 who) req) \<longrightarrow>
            run (self\<lparr>client := by_arrival svc arrival1\<rparr>) prompt n order1 =
            run (self\<lparr>client := by_arrival svc arrival2\<rparr>) prompt n order2) \<and>
         run (self\<lparr>client := by_arrival (\<lambda>k. f) arrival1\<rparr>) prompt n order1 =
         run (self\<lparr>client := by_arrival (\<lambda>k. f) arrival2\<rparr>) prompt n order2"
proof (intro conjI impI)
  assume "\<forall>who req. svc (arrival1 who) req = svc (arrival2 who) req"
  then have "by_arrival svc arrival1 = by_arrival svc arrival2"
    by (intro ext) (simp add: by_arrival_def)
  then show "run (self\<lparr>client := by_arrival svc arrival1\<rparr>) prompt n order1 =
             run (self\<lparr>client := by_arrival svc arrival2\<rparr>) prompt n order2"
    using run_any_order [OF assms] by simp
next
  have "by_arrival (\<lambda>k. f) arrival1 = by_arrival (\<lambda>k. f) arrival2"
    by (intro ext) (simp add: by_arrival_def)
  then show "run (self\<lparr>client := by_arrival (\<lambda>k. f) arrival1\<rparr>) prompt n order1 =
             run (self\<lparr>client := by_arrival (\<lambda>k. f) arrival2\<rparr>) prompt n order2"
    using run_any_order [OF assms] by simp
qed

text \<open>
  Claim C10. \<^verbatim>\<open>_one_completion\<close> never leaves through the \<^verbatim>\<open>return ""\<close> after the
  loop. It makes at most three requests, and either returns the content of the response
  to attempt \<open>k < 3\<close>, its last request, or re-raises the error of the third attempt.
\<close>

theorem one_completion_exits:
  "(let req = candidate_request self prompt t; r = one_completion self u prompt t in
      exit_of r \<noteq> Return_empty \<and>
      length (filter is_create (trace r)) \<le> 3 \<and>
      ((\<exists>k<3. \<exists>resp txt.
          create self (Candidate u k) req = Inr resp \<and> first_content resp = Inr txt \<and>
          length (filter is_create (trace r)) = k + 1 \<and>
          outcome r = Inr txt \<and> exit_of r = Return_content) \<or>
       (\<exists>e. try_body self (Candidate u 2) req = Inl e \<and>
          length (filter is_create (trace r)) = 3 \<and>
          outcome r = Inl e \<and> exit_of r = Reraise)))"
proof -
  let ?req = "candidate_request self prompt t"
  have body: "try_body self who ?req = Inr s \<Longrightarrow>
      \<exists>resp. create self who ?req = Inr resp \<and> first_content resp = Inr s" for who s
    by (auto simp: try_body_def split: sum.splits)
  show ?thesis
  proof (cases "try_body self (Candidate u 0) ?req")
    case (Inr s)
    with body [OF Inr] show ?thesis
      by (auto simp: one_completion_unfold Let_def exit_of_def trace_def outcome_def
          intro!: exI [of _ "0::nat"])
  next
    case e0: (Inl e0)
    show ?thesis
    proof (cases "try_body self (Candidate u 1) ?req")
      case (Inr s)
      with e0 body [OF Inr] show ?thesis
        by (auto simp: one_completion_unfold Let_def exit_of_def trace_def outcome_def
            intro!: exI [of _ "1::nat"])
    next
      case e1: (Inl e1)
      show ?thesis
      proof (cases "try_body self (Candidate u 2) ?req")
        case (Inr s)
        with e0 e1 body [OF Inr] show ?thesis
          by (auto simp: one_completion_unfold Let_def exit_of_def trace_def outcome_def
              intro!: exI [of _ "2::nat"])
      next
        case (Inl e2)
        with e0 e1 show ?thesis
          by (simp add: one_completion_unfold Let_def exit_of_def trace_def outcome_def)
      qed
    qed
  qed
qed

lemma order_201: "completion_order 3 [2, 0, 1]"
  by (simp add: completion_order_def upt_rec)

lemma order_012: "completion_order 3 [0, 1, 2]"
  by (simp add: completion_order_def upt_rec)

lemma order_10: "completion_order 2 [1, 0]"
  by (simp add: completion_order_def upt_rec)

lemma order_01: "completion_order 2 [0, 1]"
  by (simp add: completion_order_def upt_rec)

lemma try_scenario:
  "try_body scenario (Candidate i k) req =
     (if i = 0 then Inr (ascii ''A'')
      else if i = 1 then Inl (ClientError ''connection refused'')
      else if k = 0 then Inl (ClientError ''timeout'') else Inr (ascii ''B''))"
  by (simp add: try_body_def create_def scenario_def init_def scenario_backend_def)

lemma try_scenario_synthesis: "try_body scenario Synthesis req = Inr (ascii ''AB'')"
  by (simp add: try_body_def create_def scenario_def init_def scenario_backend_def)

lemma scenario_outcome:
  "outcome (one_completion scenario i p t) =
     (if i = 0 then Inr (ascii ''A'')
      else if i = 1 then Inl (ClientError ''connection refused'') else Inr (ascii ''B''))"
  by (simp add: one_completion_unfold Let_def try_scenario outcome_def)

lemma scenario_dispatch:
  assumes "completion_order 3 order"
  shows "dispatch scenario p 3 order = [ascii ''A'', [], ascii ''B'']"
  by (simp add: dispatch_eq [OF assms] upt_rec scenario_outcome recorded_def)

lemma usable_A: "usable (ascii ''A'')" and usable_B: "usable (ascii ''B'')" and unusable_Nil: "\<not> usable []"
  and unusable_spaces: "\<not> usable [0x0A, 0x3000, 0x20]"
  by (simp_all add: usable_def strip_def isspace_def ascii_def)

lemma scenario_run:
  assumes "completion_order 3 order"
  shows "fst (run scenario p 3 order) = Inr \<lparr>final = ascii ''AB'', candidates = [ascii ''A'', [], ascii ''B'']\<rparr>"
  by (simp add: run_fst scenario_dispatch [OF assms] usable_A usable_B unusable_Nil
      try_scenario_synthesis)

text \<open>
  The scenario of the specification: three units, the second one down, completing in
  the order 2, 0, 1.
\<close>

theorem run_candidates_by_index_witness:
  "(1::int) \<le> 3 \<and> completion_order 3 [2, 0, 1] \<and>
   fst (run scenario (ascii ''p'') 3 [2, 0, 1]) = Inr \<lparr>final = ascii ''AB'', candidates = [ascii ''A'', [], ascii ''B'']\<rparr> \<and>
   length (candidates \<lparr>final = ascii ''AB'', candidates = [ascii ''A'', [], ascii ''B'']\<rparr>) = nat 3 \<and>
   candidates \<lparr>final = ascii ''AB'', candidates = [ascii ''A'', [], ascii ''B'']\<rparr> ! 1 =
     recorded (outcome (one_completion scenario 1 (ascii ''p'') 0.9)) \<and>
   candidates \<lparr>final = ascii ''AB'', candidates = [ascii ''A'', [], ascii ''B'']\<rparr> ! 2 =
     recorded (outcome (one_completion scenario 2 (ascii ''p'') 0.9))"
proof -
  have h1: "(1::int) \<le> 3" by simp
  note h2 = order_201
  note h3 = scenario_run [OF order_201, of "ascii ''p''"]
  from run_candidates_by_index [OF h1 h2 h3]
  have len: "length (candidates \<lparr>final = ascii ''AB'', candidates = [ascii ''A'', [], ascii ''B'']\<rparr>) = nat 3"
    and slots: "\<forall>i<nat 3. candidates \<lparr>final = ascii ''AB'', candidates = [ascii ''A'', [], ascii ''B'']\<rparr> ! i =
           recorded (outcome (one_completion scenario i (ascii ''p'') 0.9))"
    by blast+
  from slots have "candidates \<lparr>final = ascii ''AB'', candidates = [ascii ''A'', [], ascii ''B'']\<rparr> ! 1 =
     recorded (outcome (one_completion scenario 1 (ascii ''p'') 0.9))"
    by (rule allE [where x = 1]) simp
  moreover from slots have "candidates \<lparr>final = ascii ''AB'', candidates = [ascii ''A'', [], ascii ''B'']\<rparr> ! 2 =
     recorded (outcome (one_completion scenario 2 (ascii ''p'') 0.9))"
    by (rule allE [where x = 2]) simp
  ultimately show ?thesis
    using h1 h2 h3 len by blast
qed


lemma scenario_one_completion_2:
  "one_completion scenario 2 p t =
     (Inr (ascii ''B''), Return_content,
      [Create (candidate_request scenario p t), Sleep 0.5,
       Create (candidate_request scenario p t)])"
  by (simp add: one_completion_unfold Let_def try_scenario)

lemma try_empty:
  "try_body empty_self (Candidate i k) req = (if i = 0 then Inr (ascii ''A'') else Inr [])"
  "try_body empty_self Synthesis req = Inr (ascii ''F'')"
  by (simp_all add: try_body_def create_def empty_self_def init_def empty_backend_def)

lemma empty_outcome:
  "outcome (one_completion empty_self i p t) = (if i = 0 then Inr (ascii ''A'') else Inr [])"
  by (simp add: one_completion_unfold Let_def try_empty outcome_def)

lemma empty_dispatch:
  assumes "completion_order 2 order"
  shows "dispatch empty_self p 2 order = [ascii ''A'', []]"
  by (simp add: dispatch_eq [OF assms] upt_rec empty_outcome recorded_def)

lemma empty_run:
  assumes "completion_order 2 order"
  shows "fst (run empty_self p 2 order) = Inr \<lparr>final = ascii ''F'', candidates = [ascii ''A'', []]\<rparr>"
  by (simp add: run_fst empty_dispatch [OF assms] usable_A unusable_Nil try_empty)

text \<open>
  Claim C1 as stated says that an entry is either a success with non-empty text or a
  failure recorded as the empty string. With a backend that answers unit 1 with the
  empty text, the run returns, unit 1 succeeded, and its entry is the empty string: a
  success with empty text.
\<close>

theorem entry_success_with_empty_text:
  "completion_order 2 [1, 0] \<and>
   fst (run empty_self (ascii ''p'') 2 [1, 0]) = Inr \<lparr>final = ascii ''F'', candidates = [ascii ''A'', []]\<rparr> \<and>
   outcome (one_completion empty_self 1 (ascii ''p'') 0.9) = Inr []"
  using order_10 empty_run [OF order_10, of "ascii ''p''"] empty_outcome [of 1 "ascii ''p''" "0.9"]
  by simp

lemma try_down: "try_body down_self who req = Inl (ClientError ''connection refused'')"
  by (simp add: try_body_def create_def down_self_def init_def down_backend_def)

lemma down_outcome:
  "outcome (one_completion down_self i p t) = Inl (ClientError ''connection refused'')"
  by (simp add: one_completion_unfold Let_def try_down outcome_def)

text \<open>Two units against a backend that refuses every request.\<close>

theorem all_units_fail_no_synthesis_witness:
  "(1::int) \<le> 2 \<and> completion_order 2 [1, 0] \<and>
   isl (outcome (one_completion down_self 0 (ascii ''p'') 0.9)) \<and>
   isl (outcome (one_completion down_self 1 (ascii ''p'') 0.9)) \<and>
   fst (run down_self (ascii ''p'') 2 [1, 0]) =
     Inl (RuntimeError ''All candidate generations failed.'') \<and>
   main_trace (snd (run down_self (ascii ''p'') 2 [1, 0])) = []"
proof -
  have h1: "(1::int) \<le> 2" by simp
  have h3: "\<forall>i<nat 2. isl (outcome (one_completion down_self i (ascii ''p'') 0.9))"
    by (simp add: down_outcome)
  from all_units_fail_no_synthesis [OF h1 order_10 h3]
  show ?thesis
    using order_10 by (simp add: down_outcome)
qed

text \<open>
  In the scenario, unit 2 succeeds on its second attempt after one wait, and unit 1
  fails its three attempts.
\<close>

theorem unit_retry_policy_witness:
  "trace (one_completion scenario 2 (ascii ''p'') 0.9) =
     [Create (candidate_request scenario (ascii ''p'') 0.9), Sleep 0.5,
      Create (candidate_request scenario (ascii ''p'') 0.9)] \<and>
   (1::int) \<le> 3 \<and> completion_order 3 [2, 0, 1] \<and> (1::nat) < nat 3 \<and>
   isl (try_body scenario (Candidate 1 0) (candidate_request scenario (ascii ''p'') 0.9)) \<and>
   isl (try_body scenario (Candidate 1 1) (candidate_request scenario (ascii ''p'') 0.9)) \<and>
   isl (try_body scenario (Candidate 1 2) (candidate_request scenario (ascii ''p'') 0.9)) \<and>
   isl (outcome (one_completion scenario 1 (ascii ''p'') 0.9)) \<and>
   trace (one_completion scenario 1 (ascii ''p'') 0.9) =
     [Create (candidate_request scenario (ascii ''p'') 0.9), Sleep 0.5,
      Create (candidate_request scenario (ascii ''p'') 0.9), Sleep 1,
      Create (candidate_request scenario (ascii ''p'') 0.9)] \<and>
   dispatch scenario (ascii ''p'') 3 [2, 0, 1] ! 1 = []"
proof -
  have fails: "\<forall>k<3. isl (try_body scenario (Candidate 1 k) (candidate_request scenario (ascii ''p'') 0.9))"
    by (simp add: try_scenario)
  have pre: "(1::int) \<le> 3 \<and> completion_order 3 [2, 0, 1] \<and> (1::nat) < nat 3 \<and>
      (\<forall>k<3. isl (try_body scenario (Candidate 1 k) (candidate_request scenario (ascii ''p'') 0.9)))"
    using fails order_201 by simp
  from unit_retry_policy [of scenario "ascii ''p''" "0.9" 1 3 "[2, 0, 1]" 1] fails pre
  have "isl (outcome (one_completion scenario 1 (ascii ''p'') 0.9)) \<and>
        trace (one_completion scenario 1 (ascii ''p'') 0.9) =
          [Create (candidate_request scenario (ascii ''p'') 0.9), Sleep 0.5,
           Create (candidate_request scenario (ascii ''p'') 0.9), Sleep 1,
           Create (candidate_request scenario (ascii ''p'') 0.9)] \<and>
        dispatch scenario (ascii ''p'') 3 [2, 0, 1] ! 1 = []"
    unfolding Let_def by blast
  then show ?thesis
    using order_201 by (simp add: try_scenario scenario_one_completion_2 trace_def)
qed

text \<open>Three candidates, A, B and C, and the single candidate X.\<close>

theorem synthesis_blocks_witness:
  "[ascii ''A'', ascii ''B'', ascii ''C''] \<noteq> [] \<and>
   content (build_synthesis_messages [ascii ''A'', ascii ''B'', ascii ''C''] ! 1) =
     ascii ''You are given 3 candidate answers delimited by <cand i> tags.'' @ NL @ NL @
     ascii ''<cand 1>'' @ NL @ ascii ''A'' @ NL @ ascii ''</cand 1>'' @ NL @ NL @
     ascii ''<cand 2>'' @ NL @ ascii ''B'' @ NL @ ascii ''</cand 2>'' @ NL @ NL @
     ascii ''<cand 3>'' @ NL @ ascii ''C'' @ NL @ ascii ''</cand 3>'' @ NL @ NL @
     ascii ''Return the single best final answer.'' \<and>
   [ascii ''X''] \<noteq> [] \<and>
   content (build_synthesis_messages [ascii ''X''] ! 1) =
     ascii ''You are given 1 candidate answers delimited by <cand i> tags.'' @ NL @ NL @
     ascii ''<cand 1>'' @ NL @ ascii ''X'' @ NL @ ascii ''</cand 1>'' @ NL @ NL @
     ascii ''Return the single best final answer.''"
proof -
  have ne3: "[ascii ''A'', ascii ''B'', ascii ''C''] \<noteq> []" by simp
  from synthesis_blocks [OF ne3] obtain body where
    msgs: "build_synthesis_messages [ascii ''A'', ascii ''B'', ascii ''C''] =
             [\<lparr>role = ''system'', content = system_prompt\<rparr>,
              \<lparr>role = ''user'',
               content =
                 ascii ''You are given '' @ str (length [ascii ''A'', ascii ''B'', ascii ''C'']) @
                 ascii '' candidate answers delimited by <cand i> tags.'' @ NL @ NL @
                 body @ NL @ NL @
                 ascii ''Return the single best final answer.''\<rparr>]" and
    blocks: "\<forall>i<length [ascii ''A'', ascii ''B'', ascii ''C''].
              body =
                concat (map (\<lambda>j. cand_block (j + 1) ([ascii ''A'', ascii ''B'', ascii ''C''] ! j)
                                  @ NL @ NL) [0..<i]) @
                cand_block (i + 1) ([ascii ''A'', ascii ''B'', ascii ''C''] ! i) @
                concat (map (\<lambda>j. NL @ NL @
                                  cand_block (j + 1) ([ascii ''A'', ascii ''B'', ascii ''C''] ! j))
                          [i + 1..<length [ascii ''A'', ascii ''B'', ascii ''C'']]) \<and>
              decimal (str (i + 1)) = i + 1"
    by blast
  from blocks have
    "body = cand_block 1 (ascii ''A'') @ NL @ NL @ cand_block 2 (ascii ''B'') @ NL @ NL @
            cand_block 3 (ascii ''C'')"
    by (rule allE [where x = 0]) (simp add: upt_rec numeral_2_eq_2 numeral_3_eq_3)
  then have three:
    "content (build_synthesis_messages [ascii ''A'', ascii ''B'', ascii ''C''] ! 1) =
       ascii ''You are given 3 candidate answers delimited by <cand i> tags.'' @ NL @ NL @
       ascii ''<cand 1>'' @ NL @ ascii ''A'' @ NL @ ascii ''</cand 1>'' @ NL @ NL @
       ascii ''<cand 2>'' @ NL @ ascii ''B'' @ NL @ ascii ''</cand 2>'' @ NL @ NL @
       ascii ''<cand 3>'' @ NL @ ascii ''C'' @ NL @ ascii ''</cand 3>'' @ NL @ NL @
       ascii ''Return the single best final answer.''"
    unfolding msgs by (simp add: cand_block_def str.simps digit_def ascii_def)
  have ne1: "[ascii ''X''] \<noteq> []" by simp
  from synthesis_blocks [OF ne1] obtain body1 where
    msgs1: "build_synthesis_messages [ascii ''X''] =
             [\<lparr>role = ''system'', content = system_prompt\<rparr>,
              \<lparr>role = ''user'',
               content =
                 ascii ''You are given '' @ str (length [ascii ''X'']) @
                 ascii '' candidate answers delimited by <cand i> tags.'' @ NL @ NL @
                 body1 @ NL @ NL @
                 ascii ''Return the single best final answer.''\<rparr>]" and
    single: "length [ascii ''X''] = 1 \<longrightarrow> body1 = cand_block 1 ([ascii ''X''] ! 0)"
    by blast
  from single have "body1 = cand_block 1 (ascii ''X'')" by simp
  then have one:
    "content (build_synthesis_messages [ascii ''X''] ! 1) =
       ascii ''You are given 1 candidate answers delimited by <cand i> tags.'' @ NL @ NL @
       ascii ''<cand 1>'' @ NL @ ascii ''X'' @ NL @ ascii ''</cand 1>'' @ NL @ NL @
       ascii ''Return the single best final answer.''"
    unfolding msgs1 by (simp add: cand_block_def str.simps digit_def ascii_def)
  from ne3 three ne1 one show ?thesis by blast
qed

lemma try_synthesis_down:
  "try_body synthesis_down_self (Candidate i k) req = Inr (ascii ''A'')"
  "try_body synthesis_down_self Synthesis req = Inl (ClientError ''model unloaded'')"
  by (simp_all add: try_body_def create_def synthesis_down_self_def init_def
      synthesis_down_backend_def)

lemma synthesis_down_one_completion:
  "one_completion synthesis_down_self i p t =
     (Inr (ascii ''A''), Return_content, [Create (candidate_request synthesis_down_self p t)])"
  by (simp add: one_completion_unfold Let_def try_synthesis_down)

lemma synthesis_down_dispatch:
  assumes "completion_order 2 order"
  shows "dispatch synthesis_down_self p 2 order = [ascii ''A'', ascii ''A'']"
  by (simp add: dispatch_eq [OF assms] upt_rec synthesis_down_one_completion outcome_def
      recorded_def)

text \<open>Two units answer A and the synthesis request fails.\<close>

theorem synthesis_once_no_retry_witness:
  "(1::int) \<le> 2 \<and>
   filter usable (dispatch synthesis_down_self (ascii ''p'') 2 [0, 1]) \<noteq> [] \<and>
   main_trace (snd (run synthesis_down_self (ascii ''p'') 2 [0, 1])) =
     [Create (synthesis_request synthesis_down_self [ascii ''A'', ascii ''A''])] \<and>
   req_temperature (synthesis_request synthesis_down_self [ascii ''A'', ascii ''A'']) = 0.2 \<and>
   try_body synthesis_down_self Synthesis (synthesis_request synthesis_down_self [ascii ''A'', ascii ''A'']) =
     Inl (ClientError ''model unloaded'') \<and>
   fst (run synthesis_down_self (ascii ''p'') 2 [0, 1]) = Inl (ClientError ''model unloaded'')"
proof -
  have h1: "(1::int) \<le> 2" by simp
  have d: "dispatch synthesis_down_self (ascii ''p'') 2 [0, 1] = [ascii ''A'', ascii ''A'']"
    by (rule synthesis_down_dispatch [OF order_01])
  have ne: "filter usable (dispatch synthesis_down_self (ascii ''p'') 2 [0, 1]) \<noteq> []"
    unfolding d by (simp add: usable_A)
  from synthesis_once_no_retry [OF h1, of synthesis_down_self "ascii ''p''" "[0, 1]"] ne
  have "main_trace (snd (run synthesis_down_self (ascii ''p'') 2 [0, 1])) =
          [Create (synthesis_request synthesis_down_self
                    (dispatch synthesis_down_self (ascii ''p'') 2 [0, 1]))]"
    and "\<forall>e. try_body synthesis_down_self Synthesis
               (synthesis_request synthesis_down_self
                 (dispatch synthesis_down_self (ascii ''p'') 2 [0, 1])) = Inl e \<longrightarrow>
             fst (run synthesis_down_self (ascii ''p'') 2 [0, 1]) = Inl e"
    by blast+
  then show ?thesis
    using ne unfolding d by (simp add: try_synthesis_down)
qed

text \<open>The counts 0 and -3.\<close>

theorem invalid_n_fails_fast_witness:
  "(0::int) < 1 \<and>
   fst (run scenario (ascii ''p'') 0 []) = Inl (ValueError ''n_runs must be >= 1'') \<and>
   backend_requests (snd (run scenario (ascii ''p'') 0 [])) = [] \<and>
   fst (run scenario (ascii ''p'') (- 3) []) = Inl (ValueError ''n_runs must be >= 1'')"
proof -
  have h0: "(0::int) < 1" and h3: "(- 3::int) < 1" by simp_all
  from invalid_n_fails_fast [OF h0, of scenario "ascii ''p''" "[]"]
    invalid_n_fails_fast [OF h3, of scenario "ascii ''p''" "[]"]
  show ?thesis by simp
qed


lemma try_whitespace:
  "try_body whitespace_self (Candidate i k) req = (if i = 0 then Inr (ascii ''A'') else Inr [0x0A, 0x3000, 0x20])"
  "try_body whitespace_self Synthesis req = Inr (ascii ''F'')"
  by (simp_all add: try_body_def create_def whitespace_self_def init_def whitespace_backend_def)

lemma whitespace_outcome:
  "outcome (one_completion whitespace_self i p t) = (if i = 0 then Inr (ascii ''A'') else Inr [0x0A, 0x3000, 0x20])"
  by (simp add: one_completion_unfold Let_def try_whitespace outcome_def)

lemma whitespace_dispatch:
  assumes "completion_order 2 order"
  shows "dispatch whitespace_self p 2 order = [ascii ''A'', [0x0A, 0x3000, 0x20]]"
  by (simp add: dispatch_eq [OF assms] upt_rec whitespace_outcome recorded_def)

lemma whitespace_run:
  assumes "completion_order 2 order"
  shows "fst (run whitespace_self p 2 order) =
           Inr \<lparr>final = ascii ''F'', candidates = [ascii ''A'', [0x0A, 0x3000, 0x20]]\<rparr>"
  by (simp add: run_fst whitespace_dispatch [OF assms] usable_A unusable_spaces try_whitespace)

lemma blank_spaces: "blank [0x0A, 0x3000, 0x20]"
  by (simp add: blank_def whitespace_def)

lemma usable_zero_width_space: "usable [0x200B]"
  by (simp add: usable_def strip_def isspace_def)

text \<open>Unit 0 answers A and unit 1 answers a line feed, an ideographic space and a space.\<close>

theorem all_failed_iff_all_blank_witness:
  "(1::int) \<le> 2 \<and> completion_order 2 [1, 0] \<and> (1::nat) < nat 2 \<and>
   outcome (one_completion whitespace_self 1 (ascii ''p'') 0.9) = Inr [0x0A, 0x3000, 0x20] \<and>
   blank [0x0A, 0x3000, 0x20] \<and>
   [0x0A, 0x3000, 0x20] \<notin> set (filter usable (dispatch whitespace_self (ascii ''p'') 2 [1, 0])) \<and>
   fst (run whitespace_self (ascii ''p'') 2 [1, 0]) =
     Inr \<lparr>final = ascii ''F'', candidates = [ascii ''A'', [0x0A, 0x3000, 0x20]]\<rparr> \<and>
   candidates \<lparr>final = ascii ''F'', candidates = [ascii ''A'', [0x0A, 0x3000, 0x20]]\<rparr> ! 1 =
     [0x0A, 0x3000, 0x20] \<and>
   usable [0x200B]"
proof -
  have h1: "(1::int) \<le> 2" by simp
  have i: "(1::nat) < nat 2" by simp
  have o: "outcome (one_completion whitespace_self 1 (ascii ''p'') 0.9) = Inr [0x0A, 0x3000, 0x20]"
    by (simp add: whitespace_outcome)
  note r = whitespace_run [OF order_10, of "ascii ''p''"]
  from all_failed_iff_all_blank [OF h1 order_10, of whitespace_self "ascii ''p''"]
  have "\<forall>i txt. i < nat 2 \<and> outcome (one_completion whitespace_self i (ascii ''p'') 0.9) = Inr txt \<longrightarrow>
            (blank txt \<longrightarrow>
               txt \<notin> set (filter usable (dispatch whitespace_self (ascii ''p'') 2 [1, 0]))) \<and>
            (\<forall>res. fst (run whitespace_self (ascii ''p'') 2 [1, 0]) = Inr res \<longrightarrow>
               candidates res ! i = txt)"
    by blast
  with i o blank_spaces r
  have "[0x0A, 0x3000, 0x20] \<notin> set (filter usable (dispatch whitespace_self (ascii ''p'') 2 [1, 0])) \<and>
        candidates \<lparr>final = ascii ''F'', candidates = [ascii ''A'', [0x0A, 0x3000, 0x20]]\<rparr> ! 1 = [0x0A, 0x3000, 0x20]"
    by blast
  with h1 order_10 i o blank_spaces r usable_zero_width_space show ?thesis
    by blast
qed

lemma try_by_arrival:
  "try_body (self\<lparr>client := by_arrival svc arrival\<rparr>) who req =
     (case svc (arrival who) req of
        Inl msg \<Rightarrow> Inl (ClientError msg)
      | Inr resp \<Rightarrow> first_content resp)"
  by (simp add: try_body_def create_def by_arrival_def split: sum.splits)

lemma outcome_by_arrival_first:
  assumes "svc (arrival (Candidate i 0))
             (candidate_request (self\<lparr>client := by_arrival svc arrival\<rparr>) p t) =
           Inr (Response [c])"
  shows "outcome (one_completion (self\<lparr>client := by_arrival svc arrival\<rparr>) i p t) = Inr c"
  by (simp add: one_completion_unfold Let_def try_by_arrival assms outcome_def)

lemma echo_outcome:
  "outcome (one_completion (self\<lparr>client := by_arrival echo_service arrival\<rparr>) i p t) = Inr p"
  by (rule outcome_by_arrival_first)
     (simp add: echo_service_def candidate_request_def completion_request_def)

lemma echo_dispatch:
  assumes "completion_order 2 order"
  shows "dispatch (self\<lparr>client := by_arrival echo_service arrival\<rparr>) p 2 order = [p, p]"
  by (simp add: dispatch_eq [OF assms] upt_rec echo_outcome recorded_def)

lemma usable_p: "usable (ascii ''p'')"
  by (simp add: usable_def strip_def isspace_def ascii_def)

lemma echo_run:
  assumes "completion_order 2 order"
  shows "fst (run (self\<lparr>client := by_arrival echo_service arrival\<rparr>) (ascii ''p'') 2 order) =
           Inr \<lparr>final = system_prompt, candidates = [ascii ''p'', ascii ''p'']\<rparr>"
  by (simp add: run_fst echo_dispatch [OF assms] usable_p try_by_arrival echo_service_def
      synthesis_request_def completion_request_def build_synthesis_messages_def)

text \<open>
  The service that echoes the request, with unit 0 first and completion order 0, 1 in
  one invocation, unit 1 first and completion order 1, 0 in the other.
\<close>

theorem run_same_answers_same_result_witness:
  "completion_order 2 [0, 1] \<and> completion_order 2 [1, 0] \<and>
   (\<forall>who req. echo_service (unit0_first who) req = echo_service (unit1_first who) req) \<and>
   run (scenario\<lparr>client := by_arrival echo_service unit0_first\<rparr>) (ascii ''p'') 2 [0, 1] =
   run (scenario\<lparr>client := by_arrival echo_service unit1_first\<rparr>) (ascii ''p'') 2 [1, 0] \<and>
   fst (run (scenario\<lparr>client := by_arrival echo_service unit0_first\<rparr>) (ascii ''p'') 2 [0, 1]) =
     Inr \<lparr>final = system_prompt, candidates = [ascii ''p'', ascii ''p'']\<rparr>"
proof -
  have same: "\<forall>who req. echo_service (unit0_first who) req = echo_service (unit1_first who) req"
    by (simp add: echo_service_def)
  from run_same_answers_same_result [OF order_01 order_10,
      where svc = echo_service and ?arrival1.0 = unit0_first and ?arrival2.0 = unit1_first
        and self = scenario and prompt = "ascii ''p''"] same
  have "run (scenario\<lparr>client := by_arrival echo_service unit0_first\<rparr>) (ascii ''p'') 2 [0, 1] =
        run (scenario\<lparr>client := by_arrival echo_service unit1_first\<rparr>) (ascii ''p'') 2 [1, 0]"
    by blast
  with order_01 order_10 same
    echo_run [OF order_01, where self = scenario and arrival = unit0_first]
  show ?thesis by blast
qed

lemma queue_dispatch_unit0_first:
  assumes "completion_order 2 order"
  shows "dispatch (self\<lparr>client := by_arrival queue_service unit0_first\<rparr>) p 2 order =
           [ascii ''A'', ascii ''B'']"
proof -
  have "outcome (one_completion (self\<lparr>client := by_arrival queue_service unit0_first\<rparr>) 0 p t) =
          Inr (ascii ''A'')" for t
    by (rule outcome_by_arrival_first) (simp add: queue_service_def unit0_first_def)
  moreover
  have "outcome (one_completion (self\<lparr>client := by_arrival queue_service unit0_first\<rparr>) 1 p t) =
          Inr (ascii ''B'')" for t
    by (rule outcome_by_arrival_first) (simp add: queue_service_def unit0_first_def)
  ultimately show ?thesis
    by (simp add: dispatch_eq [OF assms] upt_rec recorded_def)
qed

lemma queue_dispatch_unit1_first:
  assumes "completion_order 2 order"
  shows "dispatch (self\<lparr>client := by_arrival queue_service unit1_first\<rparr>) p 2 order =
           [ascii ''B'', ascii ''A'']"
proof -
  have "outcome (one_completion (self\<lparr>client := by_arrival queue_service unit1_first\<rparr>) 0 p t) =
          Inr (ascii ''B'')" for t
    by (rule outcome_by_arrival_first) (simp add: queue_service_def unit1_first_def)
  moreover
  have "outcome (one_completion (self\<lparr>client := by_arrival queue_service unit1_first\<rparr>) 1 p t) =
          Inr (ascii ''A'')" for t
    by (rule outcome_by_arrival_first) (simp add: queue_service_def unit1_first_def)
  ultimately show ?thesis
    by (simp add: dispatch_eq [OF assms] upt_rec recorded_def)
qed

lemma queue_run_unit0_first:
  assumes "completion_order 2 order"
  shows "fst (run (self\<lparr>client := by_arrival queue_service unit0_first\<rparr>) p 2 order) =
           Inr \<lparr>final = ascii ''F'', candidates = [ascii ''A'', ascii ''B'']\<rparr>"
  by (simp add: run_fst queue_dispatch_unit0_first [OF assms] usable_A usable_B
      try_by_arrival queue_service_def unit0_first_def)

lemma queue_run_unit1_first:
  assumes "completion_order 2 order"
  shows "fst (run (self\<lparr>client := by_arrival queue_service unit1_first\<rparr>) p 2 order) =
           Inr \<lparr>final = ascii ''F'', candidates = [ascii ''B'', ascii ''A'']\<rparr>"
  by (simp add: run_fst queue_dispatch_unit1_first [OF assms] usable_A usable_B
      try_by_arrival queue_service_def unit1_first_def)

text \<open>
  Claim C9 as stated, for a service with one fixed output per call in the order of
  arrival. The same prompt, the same \<open>n = 2\<close> and the same completion order: when the
  request of unit 0 arrives first the candidates are A, B; when that of unit 1 arrives
  first they are B, A.
\<close>

theorem arrival_order_changes_candidates:
  "completion_order 2 [0, 1] \<and>
   fst (run (scenario\<lparr>client := by_arrival queue_service unit0_first\<rparr>) (ascii ''p'') 2 [0, 1]) =
     Inr \<lparr>final = ascii ''F'', candidates = [ascii ''A'', ascii ''B'']\<rparr> \<and>
   fst (run (scenario\<lparr>client := by_arrival queue_service unit1_first\<rparr>) (ascii ''p'') 2 [0, 1]) =
     Inr \<lparr>final = ascii ''F'', candidates = [ascii ''B'', ascii ''A'']\<rparr>"
  using order_01
    queue_run_unit0_first [OF order_01, where self = scenario and p = "ascii ''p''"]
    queue_run_unit1_first [OF order_01, where self = scenario and p = "ascii ''p''"]
  by blast

text \<open>In the scenario, unit 2 returns from its second attempt and unit 1 re-raises.\<close>

theorem one_completion_exits_witness:
  "exit_of (one_completion scenario 2 (ascii ''p'') 0.9) \<noteq> Return_empty \<and>
   exit_of (one_completion scenario 2 (ascii ''p'') 0.9) = Return_content \<and>
   outcome (one_completion scenario 2 (ascii ''p'') 0.9) = Inr (ascii ''B'') \<and>
   length (filter is_create (trace (one_completion scenario 2 (ascii ''p'') 0.9))) = 2 \<and>
   exit_of (one_completion scenario 1 (ascii ''p'') 0.9) = Reraise \<and>
   outcome (one_completion scenario 1 (ascii ''p'') 0.9) = Inl (ClientError ''connection refused'')"
proof -
  from one_completion_exits [of scenario "ascii ''p''" "0.9" 2]
  have "exit_of (one_completion scenario 2 (ascii ''p'') 0.9) \<noteq> Return_empty"
    unfolding Let_def by blast
  moreover have "one_completion scenario 1 (ascii ''p'') 0.9 =
     (Inl (ClientError ''connection refused''), Reraise,
      [Create (candidate_request scenario (ascii ''p'') 0.9), Sleep 0.5,
       Create (candidate_request scenario (ascii ''p'') 0.9), Sleep 1,
       Create (candidate_request scenario (ascii ''p'') 0.9)])"
    by (simp add: one_completion_unfold Let_def try_scenario)
  ultimately show ?thesis
    by (simp add: scenario_one_completion_2 exit_of_def outcome_def trace_def)
qed

end
